theory Spec2Isabelle
  imports Complex_Main
begin

section \<open>The check\_service management command\<close>

text \<open>
  The repository holds one Django management command,
  \<^verbatim>\<open>service_checker/management/commands/check_service.py\<close>. Its \<^verbatim>\<open>handle\<close>
  reads the clock, logs, sends one GET request, reads the clock again and writes one
  styled line. Everything it touches outside itself (the clock, the logger, the HTTP
  client, the command's standard output) is made explicit here: the clock and the network
  are fields of a \<open>world\<close> that the run reads, and every call on the logger, the HTTP
  client and standard output is appended, in order, to the world's trace. The arguments
  that \<^verbatim>\<open>add_arguments\<close> declares are parsed before \<^verbatim>\<open>handle\<close> runs; the parse and the
  way an invocation ends are modelled after \<^verbatim>\<open>handle\<close>.
\<close>

subsection \<open>Python values: floats and their text\<close>

text \<open>
  \<^verbatim>\<open>time.time()\<close> returns a finite double. \<open>Float m e\<close> is the double of value
  \<open>m * 2 ^ e\<close>. Subtraction and multiplication compute the exact result and round it to
  53 significant bits, ties to even, as binary64 does. The exponent range of binary64
  and the sign of zero are not modelled: timestamps are seconds since the epoch, far from
  overflow and underflow, and a difference that is zero is \<^verbatim>\<open>+0.0\<close>.
  Results are normalised (odd mantissa, or \<open>Float 0 0\<close> for zero), so that equal results
  are equal terms.
\<close>

datatype pyfloat = Float int int

fun bit_length :: "nat \<Rightarrow> nat" where
  "bit_length n = (if n = 0 then 0 else Suc (bit_length (n div 2)))"

declare bit_length.simps [simp del]

function normalise :: "int \<Rightarrow> int \<Rightarrow> pyfloat" where
  "normalise m e =
     (if m = 0 then Float 0 0
      else if even m then normalise (m div 2) (e + 1)
      else Float m e)"
  by pat_completeness auto
termination
  by (relation "measure (\<lambda>(m, e). nat \<bar>m\<bar>)") auto

declare normalise.simps [simp del]

text \<open>Round-half-even of \<open>a / 2 ^ k\<close> for a natural number \<open>a\<close>.\<close>

definition rne_shift :: "nat \<Rightarrow> nat \<Rightarrow> nat" where
  "rne_shift a k =
     (let d = 2 ^ k; q = a div d; r = a mod d
      in if d < 2 * r \<or> (2 * r = d \<and> odd q) then q + 1 else q)"

definition round53 :: "int \<Rightarrow> int \<Rightarrow> pyfloat" where
  "round53 m e =
     (let a = nat \<bar>m\<bar>; k = bit_length a - 53
      in normalise (sgn m * int (rne_shift a k)) (e + int k))"

fun fsub :: "pyfloat \<Rightarrow> pyfloat \<Rightarrow> pyfloat" where
  "fsub (Float m1 e1) (Float m2 e2) =
     (let e = min e1 e2
      in round53 (m1 * 2 ^ nat (e1 - e) - m2 * 2 ^ nat (e2 - e)) e)"

fun fmul :: "pyfloat \<Rightarrow> pyfloat \<Rightarrow> pyfloat" where
  "fmul (Float m1 e1) (Float m2 e2) = round53 (m1 * m2) (e1 + e2)"

declare fsub.simps [simp del] fmul.simps [simp del]

text \<open>\<^verbatim>\<open>str(n)\<close> for an integer: decimal digits, a minus sign when negative.\<close>

definition digit_char :: "nat \<Rightarrow> char" where
  "digit_char d = ''0123456789'' ! d"

fun str_nat :: "nat \<Rightarrow> string" where
  "str_nat n = (if n < 10 then [digit_char n] else str_nat (n div 10) @ [digit_char (n mod 10)])"

declare str_nat.simps [simp del]

definition str_int :: "int \<Rightarrow> string" where
  "str_int i = (if i < 0 then CHR ''-'' # str_nat (nat (- i)) else str_nat (nat i))"

text \<open>
  The format specification \<^verbatim>\<open>:.2f\<close>: the value is rounded to a whole number of
  hundredths (correctly, from the exact value, ties to even) and written as its integer
  part, a point and two digits; the sign is the sign of the float, also when the
  magnitude rounds to zero.
\<close>

definition hundredths :: "nat \<Rightarrow> int \<Rightarrow> nat" where
  "hundredths a e =
     (if 0 \<le> e then a * 100 * 2 ^ nat e else rne_shift (a * 100) (nat (- e)))"

fun format_2f :: "pyfloat \<Rightarrow> string" where
  "format_2f (Float m e) =
     (let n = hundredths (nat \<bar>m\<bar>) e
      in (if m < 0 then ''-'' else '''')
         @ str_nat (n div 100) @ ''.'' @ [digit_char (n div 10 mod 10), digit_char (n mod 10)])"

declare format_2f.simps [simp del]


definition is_digit :: "char \<Rightarrow> bool" where
  "is_digit c = (c \<in> set ''0123456789'')"

subsection \<open>The world of a run\<close>

text \<open>
  \<open>RequestException s\<close> is an exception of class \<^verbatim>\<open>requests.RequestException\<close> (or a
  subclass) whose \<^verbatim>\<open>str\<close> is \<open>s\<close>; \<open>Other_exception s\<close> is an exception of any
  other class, such as the \<^verbatim>\<open>ValueError\<close> that the HTTP client raises for a timeout
  that is not positive.
\<close>

datatype exn = RequestException string | Other_exception string

datatype response = Response (status_code: int)

datatype reply = Returns response | Raises exn

datatype level = Debug | Error

datatype style = SUCCESS | WARNING | ERROR

text \<open>
  One entry of the trace per call: \<open>Log l s\<close> for \<^verbatim>\<open>logger.debug(s)\<close> and
  \<^verbatim>\<open>logger.error(s)\<close>, \<open>Http_get u t\<close> for \<^verbatim>\<open>requests.get(u, timeout=t)\<close>,
  \<open>Stdout st s\<close> for \<^verbatim>\<open>self.stdout.write(self.style.st(s))\<close>.
\<close>

datatype event = Log level string | Http_get string int | Stdout style string

record world =
  clock :: "nat \<Rightarrow> pyfloat"
  ticks :: nat
  network :: "string \<Rightarrow> int \<Rightarrow> reply"
  trace :: "event list"

definition time_time :: "world \<Rightarrow> pyfloat \<times> world" where
  "time_time w = (clock w (ticks w), w\<lparr>ticks := Suc (ticks w)\<rparr>)"

definition logger_debug :: "string \<Rightarrow> world \<Rightarrow> world" where
  "logger_debug s w = w\<lparr>trace := trace w @ [Log Debug s]\<rparr>"

definition logger_error :: "string \<Rightarrow> world \<Rightarrow> world" where
  "logger_error s w = w\<lparr>trace := trace w @ [Log Error s]\<rparr>"

definition requests_get :: "string \<Rightarrow> int \<Rightarrow> world \<Rightarrow> reply \<times> world" where
  "requests_get u t w = (network w u t, w\<lparr>trace := trace w @ [Http_get u t]\<rparr>)"

definition stdout_write :: "style \<Rightarrow> string \<Rightarrow> world \<Rightarrow> world" where
  "stdout_write st s w = w\<lparr>trace := trace w @ [Stdout st s]\<rparr>"

subsection \<open>Command.handle\<close>

text \<open>
  \<open>options\<close> is the dictionary that the argument parser hands to \<^verbatim>\<open>handle\<close>. The
  \<open>frame\<close> holds the local variables that \<^verbatim>\<open>handle\<close> assigns, each \<open>None\<close> until its
  assignment is reached; \<open>exc\<close> is the text of the exception bound by
  \<^verbatim>\<open>except requests.RequestException as e\<close>. A \<open>run\<close> is what a call of \<^verbatim>\<open>handle\<close>
  leaves behind: the exception that left it, if any, its frame and the world.
\<close>

record options =
  url :: string
  timeout :: int

record frame =
  start_time :: "pyfloat option"
  response :: "response option"
  response_time :: "pyfloat option"
  exc :: "string option"

record run =
  raised :: "exn option"
  locals :: frame
  after :: world

definition msg_start :: "string \<Rightarrow> string" where
  "msg_start u = ''start to send a get request to the url=['' @ u @ '']''"

definition msg_available_log :: "string \<Rightarrow> string" where
  "msg_available_log u = ''Service at '' @ u @ '' is available''"

definition msg_available :: "string \<Rightarrow> pyfloat \<Rightarrow> string" where
  "msg_available u rt =
     ''Service at '' @ u @ '' is available! Response time: '' @ format_2f rt @ '' ms''"

definition msg_status :: "string \<Rightarrow> int \<Rightarrow> pyfloat \<Rightarrow> string" where
  "msg_status u sc rt =
     ''Service at '' @ u @ '' responded with status: '' @ str_int sc
       @ ''. Response time: '' @ format_2f rt @ '' ms''"

definition msg_failed :: "string \<Rightarrow> string \<Rightarrow> string" where
  "msg_failed u s = ''Failed to check service at '' @ u @ '': '' @ s"

definition handle :: "options \<Rightarrow> world \<Rightarrow> run" where
  "handle opts w0 =
     (let f0 = \<lparr>start_time = None, response = None, response_time = None, exc = None\<rparr>;
          (t0, w1) = time_time w0;
          f1 = f0\<lparr>start_time := Some t0\<rparr>;
          w2 = logger_debug (msg_start (url opts)) w1;
          (r, w3) = requests_get (url opts) (timeout opts) w2
      in case r of
           Returns resp \<Rightarrow>
             (let f2 = f1\<lparr>response := Some resp\<rparr>;
                  (t1, w4) = time_time w3;
                  rt = fmul (fsub t1 t0) (Float 1000 0);
                  f3 = f2\<lparr>response_time := Some rt\<rparr>
              in if status_code resp = 200
                 then
                   (let w5 = logger_debug (msg_available_log (url opts)) w4
                    in \<lparr>raised = None, locals = f3,
                        after = stdout_write SUCCESS (msg_available (url opts) rt) w5\<rparr>)
                 else
                   \<lparr>raised = None, locals = f3,
                    after = stdout_write WARNING
                      (msg_status (url opts) (status_code resp) rt) w4\<rparr>)
         | Raises (RequestException s) \<Rightarrow>
             (let f2 = f1\<lparr>exc := Some s\<rparr>;
                  w4 = logger_error (msg_failed (url opts) s) w3
              in \<lparr>raised = None, locals = f2,
                  after = stdout_write ERROR (msg_failed (url opts) s) w4\<rparr>)
         | Raises (Other_exception s) \<Rightarrow>
             \<lparr>raised = Some (Other_exception s), locals = f1, after = w3\<rparr>)"

text \<open>
  The value that \<^verbatim>\<open>(time.time() - start_time) * 1000\<close> has in a run that starts in \<open>w\<close>
  and reaches that line: the run's first two readings of the clock are \<open>clock w (ticks w)\<close>
  and \<open>clock w (Suc (ticks w))\<close>.
\<close>

definition elapsed_ms :: "world \<Rightarrow> pyfloat" where
  "elapsed_ms w = fmul (fsub (clock w (Suc (ticks w))) (clock w (ticks w))) (Float 1000 0)"

text \<open>What a run added to the trace: the events of \<open>w'\<close> that \<open>w\<close> did not have yet.\<close>

definition emitted :: "world \<Rightarrow> world \<Rightarrow> event list" where
  "emitted w w' = drop (length (trace w)) (trace w')"

fun is_stdout :: "event \<Rightarrow> bool" where
  "is_stdout (Stdout st s) = True"
| "is_stdout ev = False"

fun is_log :: "event \<Rightarrow> bool" where
  "is_log (Log l s) = True"
| "is_log ev = False"

fun is_get :: "event \<Rightarrow> bool" where
  "is_get (Http_get u t) = True"
| "is_get ev = False"

text \<open>The styles of the lines a run wrote to standard output, in order.\<close>

fun styles :: "event list \<Rightarrow> style list" where
  "styles [] = []"
| "styles (Stdout st s # evs) = st # styles evs"
| "styles (ev # evs) = styles evs"

text \<open>
  Django's \<^verbatim>\<open>OutputWrapper.write\<close> appends the line ending unless the message already
  ends with it. With colours off a style leaves the text as it is, and \<open>plain_stdout\<close>
  is then the text that reaches standard output.
\<close>

definition written :: "string \<Rightarrow> string" where
  "written s = (if s \<noteq> [] \<and> last s = CHR 0x0A then s else s @ [CHR 0x0A])"

fun plain_stdout :: "event list \<Rightarrow> string" where
  "plain_stdout [] = []"
| "plain_stdout (Stdout st s # evs) = written s @ plain_stdout evs"
| "plain_stdout (ev # evs) = plain_stdout evs"

subsection \<open>Command.add\_arguments and the invocation\<close>

text \<open>
  \<^verbatim>\<open>add_arguments\<close> declares a positional \<^verbatim>\<open>url\<close> of type \<^verbatim>\<open>str\<close> and an option
  \<^verbatim>\<open>--timeout\<close> of type \<^verbatim>\<open>int\<close> with default 10. The command line is taken after
  argparse has told option strings from values: a list of positional words and of
  \<^verbatim>\<open>--timeout\<close> occurrences, each with the text of its value. argparse scans the list
  from the left: the first positional word is \<^verbatim>\<open>url\<close>, further ones are left over; the
  text of each \<^verbatim>\<open>--timeout\<close> is converted at once by \<^verbatim>\<open>int\<close> (a later occurrence
  replaces an earlier one), and a text that \<^verbatim>\<open>int\<close> rejects ends the scan with an
  error. After the scan a missing \<^verbatim>\<open>url\<close> is an error, then any word left over is.
  Python's \<^verbatim>\<open>int\<close> on a string is the parameter \<open>conv\<close>.
\<close>

datatype arg = Positional string | Timeout_option string

datatype usage_error =
    Arguments_required "string list"
  | Invalid_int_value string string
  | Unrecognized_arguments "string list"

record namespace =
  ns_url :: "string option"
  ns_timeout :: int
  ns_extras :: "string list"

fun consume :: "(string \<Rightarrow> int option) \<Rightarrow> arg list \<Rightarrow> namespace \<Rightarrow> usage_error + namespace" where
  "consume conv [] ns = Inr ns"
| "consume conv (Positional s # as) ns =
     (case ns_url ns of
        None \<Rightarrow> consume conv as (ns\<lparr>ns_url := Some s\<rparr>)
      | Some u \<Rightarrow> consume conv as (ns\<lparr>ns_extras := ns_extras ns @ [s]\<rparr>))"
| "consume conv (Timeout_option s # as) ns =
     (case conv s of
        None \<Rightarrow> Inl (Invalid_int_value ''--timeout'' s)
      | Some n \<Rightarrow> consume conv as (ns\<lparr>ns_timeout := n\<rparr>))"

definition parse_args :: "(string \<Rightarrow> int option) \<Rightarrow> arg list \<Rightarrow> usage_error + options" where
  "parse_args conv as =
     (case consume conv as \<lparr>ns_url = None, ns_timeout = 10, ns_extras = []\<rparr> of
        Inl err \<Rightarrow> Inl err
      | Inr ns \<Rightarrow>
          (case ns_url ns of
             None \<Rightarrow> Inl (Arguments_required [''url''])
           | Some u \<Rightarrow>
               if ns_extras ns \<noteq> [] then Inl (Unrecognized_arguments (ns_extras ns))
               else Inr \<lparr>url = u, timeout = ns_timeout ns\<rparr>))"

text \<open>
  How an invocation from the command line ends: \<^verbatim>\<open>handle\<close> returned, an exception
  left \<^verbatim>\<open>handle\<close>, or the parser reported a usage error before \<^verbatim>\<open>handle\<close> was
  called. The exit statuses are those of the interpreter and of argparse.
\<close>

datatype ending = Returned | Uncaught exn | Usage usage_error

fun exit_status :: "ending \<Rightarrow> nat" where
  "exit_status Returned = 0"
| "exit_status (Uncaught ex) = 1"
| "exit_status (Usage err) = 2"

definition check_service :: "(string \<Rightarrow> int option) \<Rightarrow> arg list \<Rightarrow> world \<Rightarrow> ending \<times> world" where
  "check_service conv as w =
     (case parse_args conv as of
        Inl err \<Rightarrow> (Usage err, w)
      | Inr opts \<Rightarrow>
          (let r = handle opts w
           in (case raised r of None \<Rightarrow> Returned | Some ex \<Rightarrow> Uncaught ex, after r)))"

text \<open>The texts of the \<^verbatim>\<open>--timeout\<close> occurrences and the positional words of a command line.\<close>

fun timeout_texts :: "arg list \<Rightarrow> string list" where
  "timeout_texts [] = []"
| "timeout_texts (Timeout_option s # as) = s # timeout_texts as"
| "timeout_texts (Positional s # as) = timeout_texts as"

fun positionals :: "arg list \<Rightarrow> string list" where
  "positionals [] = []"
| "positionals (Positional s # as) = s # positionals as"
| "positionals (Timeout_option s # as) = positionals as"

subsection \<open>Concrete collaborators\<close>

text \<open>
  Plain decimal numerals, with an optional sign: the part of Python's \<^verbatim>\<open>int\<close> that the
  examples below use as \<open>conv\<close>.
\<close>

definition digit_of :: "char \<Rightarrow> nat option" where
  "digit_of c =
     map_of [(CHR ''0'', 0), (CHR ''1'', 1), (CHR ''2'', 2), (CHR ''3'', 3), (CHR ''4'', 4),
             (CHR ''5'', 5), (CHR ''6'', 6), (CHR ''7'', 7), (CHR ''8'', 8), (CHR ''9'', 9)] c"

fun nat_of_digits :: "nat \<Rightarrow> string \<Rightarrow> nat option" where
  "nat_of_digits acc [] = Some acc"
| "nat_of_digits acc (c # cs) =
     (case digit_of c of None \<Rightarrow> None | Some d \<Rightarrow> nat_of_digits (10 * acc + d) cs)"

fun int_of_decimal :: "string \<Rightarrow> int option" where
  "int_of_decimal [] = None"
| "int_of_decimal (c # cs) =
     (if c = CHR ''-'' then (if cs = [] then None else map_option (\<lambda>n. - int n) (nat_of_digits 0 cs))
      else if c = CHR ''+'' then (if cs = [] then None else map_option int (nat_of_digits 0 cs))
      else map_option int (nat_of_digits 0 (c # cs)))"

definition example_options :: options where
  "example_options = \<lparr>url = ''https://example.com'', timeout = 10\<rparr>"

text \<open>
  The worlds of the repository's tests: \<^verbatim>\<open>requests.get\<close> is mocked to give one reply
  whatever it is asked; the clock either stands still or reads 1 and then 1.5.
\<close>

definition mocked_world :: "reply \<Rightarrow> world" where
  "mocked_world r =
     \<lparr>clock = (\<lambda>n. Float 0 0), ticks = 0, network = (\<lambda>u t. r), trace = []\<rparr>"

definition mocked_clock_world :: "reply \<Rightarrow> world" where
  "mocked_clock_world r =
     \<lparr>clock = (\<lambda>n. if n = 0 then Float 1 0 else Float 3 (- 1)), ticks = 0,
      network = (\<lambda>u t. r), trace = []\<rparr>"

text \<open>
  A world whose HTTP client rejects a timeout that is not positive with a
  \<^verbatim>\<open>ValueError\<close>, as requests does, and answers 200 otherwise.
\<close>

definition strict_world :: world where
  "strict_world =
     \<lparr>clock = (\<lambda>n. Float 0 0), ticks = 0,
      network = (\<lambda>u t. if t \<le> 0 then Raises (Other_exception ''ValueError'')
                       else Returns (Response 200)),
      trace = []\<rparr>"

section \<open>Evaluation on literals\<close>

text \<open>
  The recursive equations of \<open>bit_length\<close>, \<open>normalise\<close> and \<open>str_nat\<close> are kept out of
  the simplifier; the rules below unfold them on numerals only.
\<close>

named_theorems py_eval

lemma bit_length_0 [py_eval]: "bit_length 0 = 0"
  by (simp add: bit_length.simps)

lemma bit_length_1 [py_eval]: "bit_length (Suc 0) = Suc 0"
  by (subst bit_length.simps) (simp add: bit_length_0)

lemma bit_length_numeral [py_eval]:
  "bit_length (numeral k) = Suc (bit_length (numeral k div 2))"
  by (subst bit_length.simps) simp

lemma normalise_0 [py_eval]: "normalise 0 e = Float 0 0"
  by (simp add: normalise.simps)

lemma normalise_1 [py_eval]: "normalise 1 e = Float 1 e"
  by (simp add: normalise.simps)

lemma normalise_minus_1 [py_eval]: "normalise (- 1) e = Float (- 1) e"
  by (simp add: normalise.simps)

lemma normalise_numeral [py_eval]:
  "normalise (numeral k) e =
     (if even (numeral k :: int) then normalise (numeral k div 2) (e + 1)
      else Float (numeral k) e)"
  by (subst normalise.simps) simp

lemma normalise_neg_numeral [py_eval]:
  "normalise (- numeral k) e =
     (if even (numeral k :: int) then normalise (- numeral k div 2) (e + 1)
      else Float (- numeral k) e)"
  by (subst normalise.simps) simp

lemma str_nat_0 [py_eval]: "str_nat 0 = ''0''"
  by (simp add: str_nat.simps digit_char_def)

lemma str_nat_1 [py_eval]: "str_nat (Suc 0) = ''1''"
  by (subst str_nat.simps) (simp add: digit_char_def)

lemma str_nat_numeral [py_eval]:
  "str_nat (numeral k) =
     (if numeral k < (10::nat) then [digit_char (numeral k)]
      else str_nat (numeral k div 10) @ [digit_char (numeral k mod 10)])"
  by (subst str_nat.simps) simp

lemmas [py_eval] =
  round53_def rne_shift_def hundredths_def digit_char_def str_int_def
  fsub.simps fmul.simps format_2f.simps

lemma mocked_world_sel:
  "clock (mocked_world r) = (\<lambda>n. Float 0 0)" "ticks (mocked_world r) = 0"
  "network (mocked_world r) = (\<lambda>u t. r)" "trace (mocked_world r) = []"
  by (simp_all add: mocked_world_def)

lemma mocked_clock_world_sel:
  "clock (mocked_clock_world r) = (\<lambda>n. if n = 0 then Float 1 0 else Float 3 (- 1))"
  "ticks (mocked_clock_world r) = 0"
  "network (mocked_clock_world r) = (\<lambda>u t. r)" "trace (mocked_clock_world r) = []"
  by (simp_all add: mocked_clock_world_def)

lemma strict_world_sel:
  "clock strict_world = (\<lambda>n. Float 0 0)" "ticks strict_world = 0"
  "network strict_world = (\<lambda>u t. if t \<le> 0 then Raises (Other_exception ''ValueError'')
                       else Returns (Response 200))"
  "trace strict_world = []"
  by (simp_all add: strict_world_def)

lemma elapsed_ms_mocked: "elapsed_ms (mocked_world r) = Float 0 0"
  by (simp add: elapsed_ms_def mocked_world_sel py_eval)

lemma elapsed_ms_mocked_clock: "elapsed_ms (mocked_clock_world r) = Float 125 2"
  by (simp add: elapsed_ms_def mocked_clock_world_sel py_eval)

lemma format_2f_zero: "format_2f (Float 0 0) = ''0.00''"
  by (simp add: py_eval)

lemma format_2f_500: "format_2f (Float 125 2) = ''500.00''"
  by (simp add: py_eval)

section \<open>What handle does, branch by branch\<close>

lemma handle_available:
  assumes "network w (url opts) (timeout opts) = Returns resp" and "status_code resp = 200"
  shows "handle opts w =
    \<lparr>raised = None,
     locals = \<lparr>start_time = Some (clock w (ticks w)), response = Some resp,
               response_time = Some (elapsed_ms w), exc = None\<rparr>,
     after = w\<lparr>ticks := Suc (Suc (ticks w)),
               trace := trace w @
                 [Log Debug (msg_start (url opts)),
                  Http_get (url opts) (timeout opts),
                  Log Debug (msg_available_log (url opts)),
                  Stdout SUCCESS (msg_available (url opts) (elapsed_ms w))]\<rparr>\<rparr>"
  using assms
  by (simp add: Let_def elapsed_ms_def handle_def time_time_def logger_debug_def
      requests_get_def stdout_write_def)

lemma handle_unavailable:
  assumes "network w (url opts) (timeout opts) = Returns resp" and "status_code resp \<noteq> 200"
  shows "handle opts w =
    \<lparr>raised = None,
     locals = \<lparr>start_time = Some (clock w (ticks w)), response = Some resp,
               response_time = Some (elapsed_ms w), exc = None\<rparr>,
     after = w\<lparr>ticks := Suc (Suc (ticks w)),
               trace := trace w @
                 [Log Debug (msg_start (url opts)),
                  Http_get (url opts) (timeout opts),
                  Stdout WARNING
                    (msg_status (url opts) (status_code resp) (elapsed_ms w))]\<rparr>\<rparr>"
  using assms
  by (simp add: Let_def elapsed_ms_def handle_def time_time_def logger_debug_def
      requests_get_def stdout_write_def)

lemma handle_failed:
  assumes "network w (url opts) (timeout opts) = Raises (RequestException s)"
  shows "handle opts w =
    \<lparr>raised = None,
     locals = \<lparr>start_time = Some (clock w (ticks w)), response = None,
               response_time = None, exc = Some s\<rparr>,
     after = w\<lparr>ticks := Suc (ticks w),
               trace := trace w @
                 [Log Debug (msg_start (url opts)),
                  Http_get (url opts) (timeout opts),
                  Log Error (msg_failed (url opts) s),
                  Stdout ERROR (msg_failed (url opts) s)]\<rparr>\<rparr>"
  using assms
  by (simp add: Let_def handle_def time_time_def logger_debug_def logger_error_def
      requests_get_def stdout_write_def)

lemma handle_uncaught:
  assumes "network w (url opts) (timeout opts) = Raises (Other_exception s)"
  shows "handle opts w =
    \<lparr>raised = Some (Other_exception s),
     locals = \<lparr>start_time = Some (clock w (ticks w)), response = None,
               response_time = None, exc = None\<rparr>,
     after = w\<lparr>ticks := Suc (ticks w),
               trace := trace w @
                 [Log Debug (msg_start (url opts)),
                  Http_get (url opts) (timeout opts)]\<rparr>\<rparr>"
  using assms
  by (simp add: Let_def handle_def time_time_def logger_debug_def requests_get_def)

section \<open>Classification of a response\<close>

text \<open>
  Claim C1. Whenever the GET returns a response, the run writes the SUCCESS line (the
  outcome Available) if and only if the status code is exactly 200. For every other
  status code, whatever it is, it writes the one WARNING line (the outcome
  UnavailableStatus), which carries the status code, and the response is kept in the
  frame.
\<close>

theorem status_200_iff_available:
  assumes "network w (url opts) (timeout opts) = Returns resp"
  shows "(styles (emitted w (after (handle opts w))) = [SUCCESS] \<longleftrightarrow> status_code resp = 200)
    \<and> (status_code resp \<noteq> 200 \<longrightarrow>
         filter is_stdout (emitted w (after (handle opts w))) =
           [Stdout WARNING (msg_status (url opts) (status_code resp) (elapsed_ms w))]
         \<and> response (locals (handle opts w)) = Some resp)"
proof (cases "status_code resp = 200")
  case True
  then show ?thesis
    by (simp add: handle_available [OF assms True] emitted_def)
next
  case False
  then show ?thesis
    by (simp add: handle_unavailable [OF assms False] emitted_def)
qed

theorem status_200_iff_available_witness:
  "network (mocked_world (Returns (Response 503))) (url example_options) (timeout example_options)
     = Returns (Response 503)
   \<and> styles (emitted (mocked_world (Returns (Response 503)))
         (after (handle example_options (mocked_world (Returns (Response 503)))))) \<noteq> [SUCCESS]
   \<and> filter is_stdout (emitted (mocked_world (Returns (Response 503)))
         (after (handle example_options (mocked_world (Returns (Response 503)))))) =
       [Stdout WARNING
          ''Service at https://example.com responded with status: 503. Response time: 0.00 ms'']"
proof -
  have h: "network (mocked_world (Returns (Response 503))) (url example_options)
      (timeout example_options) = Returns (Response 503)"
    by (simp add: mocked_world_sel)
  show ?thesis
    using h status_200_iff_available [OF h]
    by (simp add: msg_status_def elapsed_ms_mocked format_2f_zero example_options_def py_eval)
qed

section \<open>The line on standard output\<close>

text \<open>
  Claim C2, as amended. A run in which the GET returns a response or raises a
  \<^verbatim>\<open>RequestException\<close> writes exactly one line to standard output, and its text is the
  template of the outcome: the availability line with the response time in \<^verbatim>\<open>.2f\<close> for
  status 200, the status line with the code and the response time for any other status,
  the failure line with the exception's text for a \<^verbatim>\<open>RequestException\<close>. Nothing follows
  the text but the line ending. A run in which the GET raises any other exception writes
  nothing to standard output.
\<close>

theorem one_line_per_classified_run:
  "filter is_stdout (emitted w (after (handle opts w))) =
     (case network w (url opts) (timeout opts) of
        Returns resp \<Rightarrow>
          if status_code resp = 200
          then [Stdout SUCCESS (''Service at '' @ url opts @ '' is available! Response time: ''
                  @ format_2f (elapsed_ms w) @ '' ms'')]
          else [Stdout WARNING (''Service at '' @ url opts @ '' responded with status: ''
                  @ str_int (status_code resp) @ ''. Response time: ''
                  @ format_2f (elapsed_ms w) @ '' ms'')]
      | Raises (RequestException s) \<Rightarrow>
          [Stdout ERROR (''Failed to check service at '' @ url opts @ '': '' @ s)]
      | Raises (Other_exception s) \<Rightarrow> [])
   \<and> plain_stdout (emitted w (after (handle opts w))) =
     (case network w (url opts) (timeout opts) of
        Returns resp \<Rightarrow>
          if status_code resp = 200
          then ''Service at '' @ url opts @ '' is available! Response time: ''
                  @ format_2f (elapsed_ms w) @ '' ms'' @ [CHR 0x0A]
          else ''Service at '' @ url opts @ '' responded with status: ''
                  @ str_int (status_code resp) @ ''. Response time: ''
                  @ format_2f (elapsed_ms w) @ '' ms'' @ [CHR 0x0A]
      | Raises (RequestException s) \<Rightarrow>
          written (''Failed to check service at '' @ url opts @ '': '' @ s)
      | Raises (Other_exception s) \<Rightarrow> [])"
proof (cases "network w (url opts) (timeout opts)")
  case (Returns resp)
  show ?thesis
  proof (cases "status_code resp = 200")
    case True
    show ?thesis
      by (simp add: Returns True handle_available [OF Returns True] emitted_def
          msg_available_def written_def)
  next
    case False
    show ?thesis
      by (simp add: Returns False handle_unavailable [OF Returns False] emitted_def
          msg_status_def written_def)
  qed
next
  case (Raises ex)
  show ?thesis
  proof (cases ex)
    case (RequestException s)
    with Raises have r: "network w (url opts) (timeout opts) = Raises (RequestException s)"
      by simp
    show ?thesis
      by (simp add: r handle_failed [OF r] emitted_def msg_failed_def)
  next
    case (Other_exception s)
    with Raises have r: "network w (url opts) (timeout opts) = Raises (Other_exception s)"
      by simp
    show ?thesis
      by (simp add: r handle_uncaught [OF r] emitted_def)
  qed
qed

theorem one_line_per_classified_run_witness:
  "plain_stdout (emitted (mocked_clock_world (Returns (Response 200)))
      (after (handle example_options (mocked_clock_world (Returns (Response 200)))))) =
     ''Service at https://example.com is available! Response time: 500.00 ms'' @ [CHR 0x0A]
   \<and> filter is_stdout (emitted (mocked_world (Raises (RequestException ''Connection error'')))
      (after (handle example_options
         (mocked_world (Raises (RequestException ''Connection error'')))))) =
     [Stdout ERROR ''Failed to check service at https://example.com: Connection error'']"
  using one_line_per_classified_run
    [of "mocked_clock_world (Returns (Response 200))" example_options]
    one_line_per_classified_run
    [of "mocked_world (Raises (RequestException ''Connection error''))" example_options]
  by (simp add: mocked_world_sel mocked_clock_world_sel elapsed_ms_mocked_clock format_2f_500
      example_options_def)

text \<open>
  The claim as first stated, one line for every invocation that is not a usage error,
  fails where the HTTP client raises an exception that is not a \<^verbatim>\<open>RequestException\<close>:
  \<^verbatim>\<open>check_service https://example.com --timeout 0\<close> parses, the client rejects the
  timeout with a \<^verbatim>\<open>ValueError\<close>, the \<^verbatim>\<open>except\<close> clause does not match, and the
  exception leaves \<^verbatim>\<open>handle\<close> before any line is written.
\<close>

theorem uncaught_exception_writes_nothing:
  "filter is_stdout (emitted strict_world
      (after (handle \<lparr>url = ''https://example.com'', timeout = 0\<rparr> strict_world))) = []
   \<and> fst (check_service int_of_decimal
        [Positional ''https://example.com'', Timeout_option ''0''] strict_world)
     = Uncaught (Other_exception ''ValueError'')"
proof -
  have r: "network strict_world (url \<lparr>url = ''https://example.com'', timeout = 0\<rparr>)
      (timeout \<lparr>url = ''https://example.com'', timeout = 0\<rparr>)
    = Raises (Other_exception ''ValueError'')"
    by (simp add: strict_world_sel)
  have p: "parse_args int_of_decimal [Positional ''https://example.com'', Timeout_option ''0'']
    = Inr \<lparr>url = ''https://example.com'', timeout = 0\<rparr>"
    by (simp add: parse_args_def digit_of_def)
  show ?thesis
    by (simp add: check_service_def p handle_uncaught [OF r] emitted_def strict_world_sel)
qed

section \<open>Exceptions of the request\<close>

lemma parse_example: "parse_args conv [Positional u] = Inr \<lparr>url = u, timeout = 10\<rparr>"
  by (simp add: parse_args_def)

lemma check_service_parsed:
  "parse_args conv as = Inr opts \<Longrightarrow>
   check_service conv as w =
     (case raised (handle opts w) of None \<Rightarrow> Returned | Some ex \<Rightarrow> Uncaught ex,
      after (handle opts w))"
  by (simp add: check_service_def Let_def)

lemma raised_classified:
  assumes "\<And>s. network w (url opts) (timeout opts) \<noteq> Raises (Other_exception s)"
  shows "raised (handle opts w) = None"
proof (cases "network w (url opts) (timeout opts)")
  case (Returns resp)
  then show ?thesis
    by (cases "status_code resp = 200") (simp_all add: handle_available handle_unavailable)
next
  case (Raises ex)
  with assms obtain s where "network w (url opts) (timeout opts) = Raises (RequestException s)"
    by (cases ex) auto
  then show ?thesis
    by (simp add: handle_failed)
qed

text \<open>
  Claim C3. When the GET raises a \<^verbatim>\<open>RequestException\<close> (the class of requests'
  transport errors: timeout, DNS failure, refused connection, TLS failure, malformed
  URL), the \<^verbatim>\<open>except\<close> clause of \<^verbatim>\<open>handle\<close> catches it: no exception leaves
  \<^verbatim>\<open>handle\<close>, the failure line with the exception's text is written, and the
  invocation returns. On each of the three classified outcomes (a response with status
  200, a response with another status, a \<^verbatim>\<open>RequestException\<close>) the exit status is 0.
\<close>

theorem request_exception_is_caught:
  assumes "parse_args conv as = Inr opts"
  shows "(network w (url opts) (timeout opts) = Raises (RequestException s) \<longrightarrow>
            raised (handle opts w) = None
          \<and> exc (locals (handle opts w)) = Some s
          \<and> filter is_stdout (emitted w (after (handle opts w))) =
              [Stdout ERROR (''Failed to check service at '' @ url opts @ '': '' @ s)]
          \<and> fst (check_service conv as w) = Returned)
       \<and> ((\<forall>s'. network w (url opts) (timeout opts) \<noteq> Raises (Other_exception s')) \<longrightarrow>
            exit_status (fst (check_service conv as w)) = 0)"
proof (intro conjI impI)
  assume r: "network w (url opts) (timeout opts) = Raises (RequestException s)"
  show "raised (handle opts w) = None" "exc (locals (handle opts w)) = Some s"
    by (simp_all add: handle_failed [OF r])
  show "filter is_stdout (emitted w (after (handle opts w))) =
      [Stdout ERROR (''Failed to check service at '' @ url opts @ '': '' @ s)]"
    by (simp add: handle_failed [OF r] emitted_def msg_failed_def)
  show "fst (check_service conv as w) = Returned"
    by (simp add: check_service_parsed [OF assms] handle_failed [OF r])
next
  assume "\<forall>s'. network w (url opts) (timeout opts) \<noteq> Raises (Other_exception s')"
  then have "raised (handle opts w) = None"
    by (intro raised_classified) simp
  then show "exit_status (fst (check_service conv as w)) = 0"
    by (simp add: check_service_parsed [OF assms])
qed

theorem request_exception_is_caught_witness:
  "parse_args int_of_decimal [Positional ''https://example.com''] = Inr example_options
   \<and> network (mocked_world (Raises (RequestException ''Connection error'')))
        (url example_options) (timeout example_options)
      = Raises (RequestException ''Connection error'')
   \<and> raised (handle example_options
        (mocked_world (Raises (RequestException ''Connection error'')))) = None
   \<and> filter is_stdout (emitted (mocked_world (Raises (RequestException ''Connection error'')))
        (after (handle example_options
           (mocked_world (Raises (RequestException ''Connection error'')))))) =
       [Stdout ERROR ''Failed to check service at https://example.com: Connection error'']
   \<and> exit_status (fst (check_service int_of_decimal [Positional ''https://example.com'']
        (mocked_world (Raises (RequestException ''Connection error''))))) = 0"
proof -
  have p: "parse_args int_of_decimal [Positional ''https://example.com''] = Inr example_options"
    by (simp add: parse_example example_options_def)
  have r: "network (mocked_world (Raises (RequestException ''Connection error'')))
        (url example_options) (timeout example_options)
      = Raises (RequestException ''Connection error'')"
    by (simp add: mocked_world_sel)
  show ?thesis
    using p r request_exception_is_caught [OF p,
        of "mocked_world (Raises (RequestException ''Connection error''))" "''Connection error''"]
    by (simp add: example_options_def)
qed

section \<open>The response time\<close>

text \<open>
  Claim C4, as amended. When the GET raises a \<^verbatim>\<open>RequestException\<close>, no response time
  is computed: \<^verbatim>\<open>response_time\<close> is never assigned, the clock is read once (the start
  timestamp) and not again, and what the run logs and writes is the same whatever the
  clock reads; the failure line carries the URL and the exception's text only.
\<close>

theorem failure_reads_clock_once:
  assumes "network w (url opts) (timeout opts) = Raises (RequestException s)"
  shows "response_time (locals (handle opts w)) = None
       \<and> ticks (after (handle opts w)) = Suc (ticks w)
       \<and> emitted (w\<lparr>clock := c\<rparr>) (after (handle opts (w\<lparr>clock := c\<rparr>)))
           = emitted w (after (handle opts w))
       \<and> emitted w (after (handle opts w)) =
           [Log Debug (msg_start (url opts)), Http_get (url opts) (timeout opts),
            Log Error (''Failed to check service at '' @ url opts @ '': '' @ s),
            Stdout ERROR (''Failed to check service at '' @ url opts @ '': '' @ s)]"
proof -
  have r': "network (w\<lparr>clock := c\<rparr>) (url opts) (timeout opts) = Raises (RequestException s)"
    using assms by simp
  show ?thesis
    by (simp add: handle_failed [OF assms] handle_failed [OF r'] emitted_def msg_failed_def)
qed

theorem failure_reads_clock_once_witness:
  "network (mocked_clock_world (Raises (RequestException ''Connection error'')))
        (url example_options) (timeout example_options)
      = Raises (RequestException ''Connection error'')
   \<and> ticks (after (handle example_options
        (mocked_clock_world (Raises (RequestException ''Connection error''))))) = 1
   \<and> emitted (mocked_clock_world (Raises (RequestException ''Connection error'')))
        (after (handle example_options
           (mocked_clock_world (Raises (RequestException ''Connection error''))))) =
       [Log Debug ''start to send a get request to the url=[https://example.com]'',
        Http_get ''https://example.com'' 10,
        Log Error ''Failed to check service at https://example.com: Connection error'',
        Stdout ERROR ''Failed to check service at https://example.com: Connection error'']"
proof -
  have r: "network (mocked_clock_world (Raises (RequestException ''Connection error'')))
        (url example_options) (timeout example_options)
      = Raises (RequestException ''Connection error'')"
    by (simp add: mocked_clock_world_sel)
  show ?thesis
    using r failure_reads_clock_once [OF r]
    by (simp add: example_options_def msg_start_def mocked_clock_world_sel)
qed

text \<open>
  The claim as first stated, a response time computed from the elapsed time up to the
  failure, fails on the test suite's own failure scenario: with the clock reading 1 and
  then 1.5 and the GET raising "Connection error", \<^verbatim>\<open>response_time\<close> stays
  unassigned (it is not the 500 ms between the readings) and the clock has been read
  once.
\<close>

theorem no_response_time_on_failure:
  "response_time (locals (handle example_options
      (mocked_clock_world (Raises (RequestException ''Connection error''))))) = None
   \<and> response_time (locals (handle example_options
      (mocked_clock_world (Raises (RequestException ''Connection error'')))))
     \<noteq> Some (fmul (fsub (Float 3 (- 1)) (Float 1 0)) (Float 1000 0))
   \<and> ticks (after (handle example_options
        (mocked_clock_world (Raises (RequestException ''Connection error''))))) = 1"
proof -
  have r: "network (mocked_clock_world (Raises (RequestException ''Connection error'')))
        (url example_options) (timeout example_options)
      = Raises (RequestException ''Connection error'')"
    by (simp add: mocked_clock_world_sel)
  show ?thesis
    by (simp add: handle_failed [OF r] mocked_clock_world_sel)
qed

section \<open>The effects of a run\<close>

text \<open>
  Claim C5, as amended. Every run of \<^verbatim>\<open>handle\<close> first emits one debug-level record with
  the URL and then sends the one request. After a \<^verbatim>\<open>RequestException\<close> it emits one
  error-level record with the URL and the exception's text, then the failure line. After
  a response with status 200 it emits a second debug-level record ("Service at ... is
  available"), then the availability line; after any other response it emits the status
  line only. Nothing else is added to the trace, standing events are kept, and the clock
  and the network are left as they were.
\<close>

theorem effects_of_a_run:
  "emitted w (after (handle opts w)) =
     (case network w (url opts) (timeout opts) of
        Returns resp \<Rightarrow>
          if status_code resp = 200
          then [Log Debug (''start to send a get request to the url=['' @ url opts @ '']''),
                Http_get (url opts) (timeout opts),
                Log Debug (''Service at '' @ url opts @ '' is available''),
                Stdout SUCCESS (msg_available (url opts) (elapsed_ms w))]
          else [Log Debug (''start to send a get request to the url=['' @ url opts @ '']''),
                Http_get (url opts) (timeout opts),
                Stdout WARNING (msg_status (url opts) (status_code resp) (elapsed_ms w))]
      | Raises (RequestException s) \<Rightarrow>
          [Log Debug (''start to send a get request to the url=['' @ url opts @ '']''),
           Http_get (url opts) (timeout opts),
           Log Error (''Failed to check service at '' @ url opts @ '': '' @ s),
           Stdout ERROR (msg_failed (url opts) s)]
      | Raises (Other_exception s) \<Rightarrow>
          [Log Debug (''start to send a get request to the url=['' @ url opts @ '']''),
           Http_get (url opts) (timeout opts)])
   \<and> trace (after (handle opts w)) = trace w @ emitted w (after (handle opts w))
   \<and> clock (after (handle opts w)) = clock w
   \<and> network (after (handle opts w)) = network w"
proof (cases "network w (url opts) (timeout opts)")
  case (Returns resp)
  show ?thesis
  proof (cases "status_code resp = 200")
    case True
    show ?thesis
      by (simp add: Returns True handle_available [OF Returns True] emitted_def
          msg_start_def msg_available_log_def)
  next
    case False
    show ?thesis
      by (simp add: Returns False handle_unavailable [OF Returns False] emitted_def
          msg_start_def)
  qed
next
  case (Raises ex)
  show ?thesis
  proof (cases ex)
    case (RequestException s)
    with Raises have r: "network w (url opts) (timeout opts) = Raises (RequestException s)"
      by simp
    show ?thesis
      by (simp add: r handle_failed [OF r] emitted_def msg_start_def msg_failed_def)
  next
    case (Other_exception s)
    with Raises have r: "network w (url opts) (timeout opts) = Raises (Other_exception s)"
      by simp
    show ?thesis
      by (simp add: r handle_uncaught [OF r] emitted_def msg_start_def)
  qed
qed

theorem effects_of_a_run_witness:
  "emitted (mocked_world (Returns (Response 503)))
      (after (handle example_options (mocked_world (Returns (Response 503))))) =
     [Log Debug ''start to send a get request to the url=[https://example.com]'',
      Http_get ''https://example.com'' 10,
      Stdout WARNING
        ''Service at https://example.com responded with status: 503. Response time: 0.00 ms'']
   \<and> emitted (mocked_world (Raises (RequestException ''Connection error'')))
      (after (handle example_options
         (mocked_world (Raises (RequestException ''Connection error''))))) =
     [Log Debug ''start to send a get request to the url=[https://example.com]'',
      Http_get ''https://example.com'' 10,
      Log Error ''Failed to check service at https://example.com: Connection error'',
      Stdout ERROR ''Failed to check service at https://example.com: Connection error'']"
  using effects_of_a_run [of "mocked_world (Returns (Response 503))" example_options]
    effects_of_a_run
      [of "mocked_world (Raises (RequestException ''Connection error''))" example_options]
  by (simp add: mocked_world_sel example_options_def msg_status_def msg_failed_def
      elapsed_ms_mocked format_2f_zero py_eval)

text \<open>
  The claim as first stated, no log record but the first on the Available path, fails on
  the test suite's own scenario of a mocked 200 response: the run logs two debug-level
  records, the second from \<^verbatim>\<open>logger.debug(f"Service at {url} is available")\<close>.
\<close>

theorem second_debug_record_when_available:
  "filter is_log (emitted (mocked_world (Returns (Response 200)))
      (after (handle example_options (mocked_world (Returns (Response 200)))))) =
     [Log Debug ''start to send a get request to the url=[https://example.com]'',
      Log Debug ''Service at https://example.com is available'']"
proof -
  have r: "network (mocked_world (Returns (Response 200))) (url example_options)
      (timeout example_options) = Returns (Response 200)"
    by (simp add: mocked_world_sel)
  have s: "status_code (Response 200) = 200"
    by simp
  show ?thesis
    by (simp only: handle_available [OF r s])
      (simp add: emitted_def mocked_world_sel example_options_def msg_start_def
        msg_available_log_def)
qed

section \<open>One outcome per run\<close>

text \<open>
  Claim C9, as amended. A run in which the GET returns a response or raises a
  \<^verbatim>\<open>RequestException\<close> writes exactly one line, in exactly one of the three styles. The
  response, and with it the status code, is present exactly when the line is the
  SUCCESS or the WARNING line (Available, UnavailableStatus); the exception's text is
  present exactly when it is the ERROR line (Failed); and exactly one of the two is
  present.
\<close>

theorem one_outcome_per_classified_run:
  assumes "\<forall>s. network w (url opts) (timeout opts) \<noteq> Raises (Other_exception s)"
  shows "\<exists>st. styles (emitted w (after (handle opts w))) = [st]
          \<and> ((st = SUCCESS \<or> st = WARNING) \<longleftrightarrow> response (locals (handle opts w)) \<noteq> None)
          \<and> (st = ERROR \<longleftrightarrow> exc (locals (handle opts w)) \<noteq> None)
          \<and> (response (locals (handle opts w)) = None
               \<longleftrightarrow> exc (locals (handle opts w)) \<noteq> None)"
proof (cases "network w (url opts) (timeout opts)")
  case (Returns resp)
  show ?thesis
  proof (cases "status_code resp = 200")
    case True
    show ?thesis
      by (simp add: handle_available [OF Returns True] emitted_def)
  next
    case False
    show ?thesis
      by (simp add: handle_unavailable [OF Returns False] emitted_def)
  qed
next
  case (Raises ex)
  with assms obtain s where r: "network w (url opts) (timeout opts) = Raises (RequestException s)"
    by (cases ex) auto
  show ?thesis
    by (simp add: handle_failed [OF r] emitted_def)
qed

theorem one_outcome_per_classified_run_witness:
  "(\<forall>s. network (mocked_world (Returns (Response 503))) (url example_options)
        (timeout example_options) \<noteq> Raises (Other_exception s))
   \<and> (\<exists>st. styles (emitted (mocked_world (Returns (Response 503)))
          (after (handle example_options (mocked_world (Returns (Response 503)))))) = [st]
        \<and> (st = SUCCESS \<or> st = WARNING)
        \<and> response (locals (handle example_options (mocked_world (Returns (Response 503)))))
            \<noteq> None
        \<and> exc (locals (handle example_options (mocked_world (Returns (Response 503)))))
            = None)"
proof -
  have h: "\<forall>s. network (mocked_world (Returns (Response 503))) (url example_options)
        (timeout example_options) \<noteq> Raises (Other_exception s)"
    by (simp add: mocked_world_sel)
  have r: "network (mocked_world (Returns (Response 503))) (url example_options)
      (timeout example_options) = Returns (Response 503)"
    by (simp add: mocked_world_sel)
  have s: "status_code (Response 503) \<noteq> 200"
    by simp
  have "response (locals (handle example_options (mocked_world (Returns (Response 503)))))
      = Some (Response 503)"
    by (simp only: handle_unavailable [OF r s]) simp
  then show ?thesis
    using h one_outcome_per_classified_run [OF h]
    by auto
qed

text \<open>
  The claim as first stated, every run ends in exactly one of the three outcomes, fails
  where the GET raises an exception that is not a \<^verbatim>\<open>RequestException\<close>: with a timeout
  of \<open>- 1\<close> the HTTP client raises \<^verbatim>\<open>ValueError\<close>, the run writes no line in any
  style, the exception leaves \<^verbatim>\<open>handle\<close>, and neither a status code nor an error text
  has been bound.
\<close>

theorem uncaught_exception_is_no_outcome:
  "styles (emitted strict_world
      (after (handle \<lparr>url = ''https://example.com'', timeout = - 1\<rparr> strict_world))) = []
   \<and> raised (handle \<lparr>url = ''https://example.com'', timeout = - 1\<rparr> strict_world)
       = Some (Other_exception ''ValueError'')
   \<and> response (locals (handle \<lparr>url = ''https://example.com'', timeout = - 1\<rparr> strict_world))
       = None
   \<and> exc (locals (handle \<lparr>url = ''https://example.com'', timeout = - 1\<rparr> strict_world))
       = None"
proof -
  have r: "network strict_world (url \<lparr>url = ''https://example.com'', timeout = - 1\<rparr>)
      (timeout \<lparr>url = ''https://example.com'', timeout = - 1\<rparr>)
    = Raises (Other_exception ''ValueError'')"
    by (simp add: strict_world_sel)
  show ?thesis
    by (simp add: handle_uncaught [OF r] emitted_def strict_world_sel)
qed

section \<open>The text of the response time\<close>

text \<open>Decimal digits only, and at least one.\<close>

lemma digit_char_is_digit: "d < 10 \<Longrightarrow> is_digit (digit_char d)"
proof -
  assume "d < 10"
  then have "d \<in> {0, 1, 2, 3, 4, 5, 6, 7, 8, 9}"
    by auto
  then show ?thesis
    by (auto simp: is_digit_def digit_char_def)
qed

lemma str_nat_digits: "str_nat n \<noteq> [] \<and> list_all is_digit (str_nat n)"
proof (induction n rule: str_nat.induct)
  case (1 n)
  show ?case
  proof (cases "n < 10")
    case True
    then show ?thesis
      by (subst (1 2) str_nat.simps) (simp add: digit_char_is_digit)
  next
    case False
    with 1 show ?thesis
      by (subst (1 2) str_nat.simps) (simp add: digit_char_is_digit)
  qed
qed












section \<open>The arguments\<close>

text \<open>Every run of \<^verbatim>\<open>handle\<close> sends exactly one request, with the options as they are.\<close>

lemma get_once:
  "filter is_get (emitted w (after (handle opts w))) = [Http_get (url opts) (timeout opts)]"
proof (cases "network w (url opts) (timeout opts)")
  case (Returns resp)
  then show ?thesis
    by (cases "status_code resp = 200")
      (simp_all add: handle_available handle_unavailable emitted_def)
next
  case (Raises ex)
  then show ?thesis
    by (cases ex) (simp_all add: handle_failed handle_uncaught emitted_def)
qed

text \<open>
  What the parser returns, from the words of the command line: the first
  \<^verbatim>\<open>--timeout\<close> text that \<open>conv\<close> rejects is reported; otherwise a missing \<^verbatim>\<open>url\<close>
  is; otherwise the words left over are; otherwise the options are the one positional
  word and the last \<^verbatim>\<open>--timeout\<close> value, or 10.
\<close>

lemma consume_invalid:
  "find (\<lambda>s. conv s = None) (timeout_texts as) = Some s \<Longrightarrow>
   consume conv as ns = Inl (Invalid_int_value ''--timeout'' s)"
proof (induction conv as ns rule: consume.induct)
  case (1 conv ns)
  then show ?case by simp
next
  case (2 conv p as ns)
  then show ?case
    by (cases "ns_url ns") simp_all
next
  case (3 conv t as ns)
  then show ?case
    by (cases "conv t") (simp_all split: if_splits)
qed

lemma consume_valid:
  "\<forall>s \<in> set (timeout_texts as). conv s \<noteq> None \<Longrightarrow>
   \<exists>ns'. consume conv as ns = Inr ns'
     \<and> ns_url ns' =
         (case ns_url ns of Some u \<Rightarrow> Some u
          | None \<Rightarrow> (case positionals as of [] \<Rightarrow> None | p # ps \<Rightarrow> Some p))
     \<and> ns_extras ns' =
         ns_extras ns @ (case ns_url ns of Some u \<Rightarrow> positionals as | None \<Rightarrow> tl (positionals as))
     \<and> (timeout_texts as = [] \<longrightarrow> ns_timeout ns' = ns_timeout ns)
     \<and> (timeout_texts as \<noteq> [] \<longrightarrow> conv (last (timeout_texts as)) = Some (ns_timeout ns'))"
proof (induction conv as ns rule: consume.induct)
  case (1 conv ns)
  then show ?case
    by (simp split: option.splits)
next
  case (2 conv p as ns)
  then show ?case
    by (cases "ns_url ns") simp_all
next
  case (3 conv t as ns)
  from "3.prems" obtain n where n: "conv t = Some n"
    by auto
  from "3.prems" have valid: "\<forall>s \<in> set (timeout_texts as). conv s \<noteq> None"
    by simp
  from "3.IH" [OF n valid] obtain ns' where ns':
    "consume conv as (ns\<lparr>ns_timeout := n\<rparr>) = Inr ns'"
    "ns_url ns' =
       (case ns_url ns of Some u \<Rightarrow> Some u
        | None \<Rightarrow> (case positionals as of [] \<Rightarrow> None | p # ps \<Rightarrow> Some p))"
    "ns_extras ns' =
       ns_extras ns @ (case ns_url ns of Some u \<Rightarrow> positionals as | None \<Rightarrow> tl (positionals as))"
    "timeout_texts as = [] \<longrightarrow> ns_timeout ns' = n"
    "timeout_texts as \<noteq> [] \<longrightarrow> conv (last (timeout_texts as)) = Some (ns_timeout ns')"
    by auto
  show ?case
  proof (intro exI conjI impI)
    show "consume conv (Timeout_option t # as) ns = Inr ns'"
      by (simp add: n ns'(1))
    show "ns_url ns' =
       (case ns_url ns of Some u \<Rightarrow> Some u
        | None \<Rightarrow> (case positionals (Timeout_option t # as) of [] \<Rightarrow> None | p # ps \<Rightarrow> Some p))"
      by (simp add: ns'(2) split: option.splits)
    show "ns_extras ns' = ns_extras ns @
        (case ns_url ns of Some u \<Rightarrow> positionals (Timeout_option t # as)
         | None \<Rightarrow> tl (positionals (Timeout_option t # as)))"
      by (simp add: ns'(3) split: option.splits)
    show "ns_timeout ns' = ns_timeout ns" if "timeout_texts (Timeout_option t # as) = []"
      using that by simp
    show "conv (last (timeout_texts (Timeout_option t # as))) = Some (ns_timeout ns')"
      using ns'(4,5) n by (cases "timeout_texts as = []") simp_all
  qed
qed

lemma find_invalid:
  "\<not> (\<forall>s \<in> set ts. conv s \<noteq> None) \<Longrightarrow> \<exists>s. find (\<lambda>s. conv s = None) ts = Some s"
  by (cases "find (\<lambda>s. conv s = None) ts") (auto simp: find_None_iff)

lemma parse_args_invalid:
  "find (\<lambda>s. conv s = None) (timeout_texts as) = Some s \<Longrightarrow>
   parse_args conv as = Inl (Invalid_int_value ''--timeout'' s)"
  by (simp add: parse_args_def consume_invalid)

lemma parse_args_valid:
  assumes "\<forall>s \<in> set (timeout_texts as). conv s \<noteq> None"
  shows "case positionals as of
           [] \<Rightarrow> parse_args conv as = Inl (Arguments_required [''url''])
         | [u] \<Rightarrow> \<exists>n. parse_args conv as = Inr \<lparr>url = u, timeout = n\<rparr>
                    \<and> (timeout_texts as = [] \<longrightarrow> n = 10)
                    \<and> (timeout_texts as \<noteq> [] \<longrightarrow> conv (last (timeout_texts as)) = Some n)
         | u # p # ps \<Rightarrow> parse_args conv as = Inl (Unrecognized_arguments (p # ps))"
proof -
  from consume_valid [OF assms, of "\<lparr>ns_url = None, ns_timeout = 10, ns_extras = []\<rparr>"]
  obtain ns' where ns': "consume conv as \<lparr>ns_url = None, ns_timeout = 10, ns_extras = []\<rparr> = Inr ns'"
    "ns_url ns' = (case positionals as of [] \<Rightarrow> None | p # ps \<Rightarrow> Some p)"
    "ns_extras ns' = tl (positionals as)"
    "timeout_texts as = [] \<longrightarrow> ns_timeout ns' = 10"
    "timeout_texts as \<noteq> [] \<longrightarrow> conv (last (timeout_texts as)) = Some (ns_timeout ns')"
    by auto
  then show ?thesis
    by (auto simp: parse_args_def split: list.splits)
qed

lemma parse_args_Inr:
  assumes "parse_args conv as = Inr opts"
  shows "positionals as = [url opts]
       \<and> (\<forall>s \<in> set (timeout_texts as). conv s \<noteq> None)
       \<and> (timeout_texts as = [] \<longrightarrow> timeout opts = 10)
       \<and> (timeout_texts as \<noteq> [] \<longrightarrow> conv (last (timeout_texts as)) = Some (timeout opts))"
proof (cases "\<forall>s \<in> set (timeout_texts as). conv s \<noteq> None")
  case True
  from parse_args_valid [OF True] assms True show ?thesis
    by (auto split: list.splits)
next
  case False
  from find_invalid [OF False] obtain s
    where "find (\<lambda>s. conv s = None) (timeout_texts as) = Some s" ..
  from parse_args_invalid [OF this] assms show ?thesis
    by simp
qed

lemma check_service_emitted:
  "parse_args conv as = Inr opts \<Longrightarrow>
   filter is_get (emitted w (snd (check_service conv as w))) =
     [Http_get (url opts) (timeout opts)]"
  by (simp add: check_service_parsed get_once)


text \<open>
  Claim C7. Whenever parsing succeeds, the timeout is 10 if the command line has no
  \<^verbatim>\<open>--timeout\<close>, and otherwise the integer that \<^verbatim>\<open>int\<close> makes of the (last)
  \<^verbatim>\<open>--timeout\<close> text; the invocation sends exactly one GET, with that timeout
  unchanged (\<^verbatim>\<open>--timeout 5\<close> sends it with timeout 5).
\<close>

theorem timeout_default_and_passthrough:
  assumes "parse_args conv as = Inr opts"
  shows "(timeout_texts as = [] \<longrightarrow> timeout opts = 10)
       \<and> (timeout_texts as \<noteq> [] \<longrightarrow> conv (last (timeout_texts as)) = Some (timeout opts))
       \<and> filter is_get (emitted w (snd (check_service conv as w))) =
           [Http_get (url opts) (timeout opts)]"
  using parse_args_Inr [OF assms] check_service_emitted [OF assms]
  by simp

theorem timeout_default_and_passthrough_witness:
  "parse_args int_of_decimal [Positional ''https://example.com'', Timeout_option ''5'']
     = Inr \<lparr>url = ''https://example.com'', timeout = 5\<rparr>
   \<and> filter is_get (emitted (mocked_world (Returns (Response 200)))
        (snd (check_service int_of_decimal
           [Positional ''https://example.com'', Timeout_option ''5'']
           (mocked_world (Returns (Response 200)))))) =
       [Http_get ''https://example.com'' 5]
   \<and> parse_args int_of_decimal [Positional ''https://example.com'']
     = Inr \<lparr>url = ''https://example.com'', timeout = 10\<rparr>
   \<and> filter is_get (emitted (mocked_world (Returns (Response 200)))
        (snd (check_service int_of_decimal [Positional ''https://example.com'']
           (mocked_world (Returns (Response 200)))))) =
       [Http_get ''https://example.com'' 10]"
proof -
  have p5: "parse_args int_of_decimal [Positional ''https://example.com'', Timeout_option ''5'']
     = Inr \<lparr>url = ''https://example.com'', timeout = 5\<rparr>"
    by (simp add: parse_args_def digit_of_def)
  have p10: "parse_args int_of_decimal [Positional ''https://example.com'']
     = Inr \<lparr>url = ''https://example.com'', timeout = 10\<rparr>"
    by (simp add: parse_args_def)
  show ?thesis
    using p5 p10
      timeout_default_and_passthrough [OF p5, of "mocked_world (Returns (Response 200))"]
      timeout_default_and_passthrough [OF p10, of "mocked_world (Returns (Response 200))"]
    by simp
qed




text \<open>
  Reading decimal numerals inverts \<^verbatim>\<open>str\<close>: every integer has a text that
  \<open>int_of_decimal\<close> reads back.
\<close>

lemma digit_of_digit_char: "d < 10 \<Longrightarrow> digit_of (digit_char d) = Some d"
proof -
  assume "d < 10"
  then have "d \<in> {0, 1, 2, 3, 4, 5, 6, 7, 8, 9}"
    by auto
  then show ?thesis
    by (auto simp: digit_of_def digit_char_def)
qed

lemma nat_of_digits_snoc:
  "d < 10 \<Longrightarrow>
   nat_of_digits acc (cs @ [digit_char d]) = map_option (\<lambda>v. 10 * v + d) (nat_of_digits acc cs)"
  by (induction cs arbitrary: acc) (simp_all add: digit_of_digit_char split: option.splits)

lemma nat_of_digits_str_nat: "nat_of_digits 0 (str_nat n) = Some n"
proof (induction n rule: str_nat.induct)
  case (1 n)
  show ?case
  proof (cases "n < 10")
    case True
    then show ?thesis
      by (subst str_nat.simps) (simp add: digit_of_digit_char)
  next
    case False
    with 1 show ?thesis
      by (subst str_nat.simps) (simp add: nat_of_digits_snoc)
  qed
qed

lemma is_digit_not_sign: "is_digit c \<Longrightarrow> c \<noteq> CHR ''-'' \<and> c \<noteq> CHR ''+''"
  by (auto simp: is_digit_def)

lemma int_of_decimal_str_nat: "int_of_decimal (str_nat n) = Some (int n)"
proof (cases "str_nat n")
  case Nil
  with str_nat_digits [of n] show ?thesis
    by simp
next
  case (Cons c cs)
  with str_nat_digits [of n] have "is_digit c"
    by simp
  then have "c \<noteq> CHR ''-''" "c \<noteq> CHR ''+''"
    using is_digit_not_sign by blast+
  moreover have "nat_of_digits 0 (c # cs) = Some n"
    using nat_of_digits_str_nat [of n] by (simp only: Cons)
  ultimately show ?thesis
    by (simp only: Cons int_of_decimal.simps if_False option.map)
qed

lemma int_of_decimal_str_int: "int_of_decimal (str_int i) = Some i"
proof (cases "i < 0")
  case True
  have "str_nat (nat (- i)) \<noteq> []"
    using str_nat_digits by blast
  with True show ?thesis
    by (simp add: str_int_def nat_of_digits_str_nat)
next
  case False
  then show ?thesis
    by (simp add: str_int_def int_of_decimal_str_nat)
qed

text \<open>
  Claim C10. For every string \<open>u\<close>, the empty one included, and every integer \<open>n\<close>
  that \<^verbatim>\<open>int\<close> reads from the \<^verbatim>\<open>--timeout\<close> text, zero and negative ones included,
  parsing succeeds with exactly these options, in either order of the two arguments, and
  the GET is sent with exactly \<open>u\<close> and \<open>n\<close>: nothing checks that the URL is not empty
  or that the timeout is positive. When \<open>conv\<close> reads decimal numerals, the text of
  every integer \<open>k\<close> parses to the timeout \<open>k\<close>.
\<close>

theorem no_validation_of_url_or_timeout:
  assumes "conv s = Some n"
  shows "parse_args conv [Positional u, Timeout_option s] = Inr \<lparr>url = u, timeout = n\<rparr>
       \<and> parse_args conv [Timeout_option s, Positional u] = Inr \<lparr>url = u, timeout = n\<rparr>
       \<and> parse_args conv [Positional u] = Inr \<lparr>url = u, timeout = 10\<rparr>
       \<and> filter is_get (emitted w (snd (check_service conv [Positional u, Timeout_option s] w)))
           = [Http_get u n]
       \<and> filter is_get (emitted w (after (handle \<lparr>url = u, timeout = n\<rparr> w))) = [Http_get u n]
       \<and> parse_args int_of_decimal [Positional u, Timeout_option (str_int k)]
           = Inr \<lparr>url = u, timeout = k\<rparr>"
proof -
  have p: "parse_args conv [Positional u, Timeout_option s] = Inr \<lparr>url = u, timeout = n\<rparr>"
    by (simp add: parse_args_def assms)
  have q: "parse_args conv [Timeout_option s, Positional u] = Inr \<lparr>url = u, timeout = n\<rparr>"
    by (simp add: parse_args_def assms)
  have k: "parse_args int_of_decimal [Positional u, Timeout_option (str_int k)]
      = Inr \<lparr>url = u, timeout = k\<rparr>"
    by (simp add: parse_args_def int_of_decimal_str_int)
  show ?thesis
    using check_service_emitted [OF p, of w] get_once [of w "\<lparr>url = u, timeout = n\<rparr>"]
    by (simp add: p q k parse_example)
qed

theorem no_validation_of_url_or_timeout_witness:
  "int_of_decimal ''-5'' = Some (- 5)
   \<and> parse_args int_of_decimal [Positional '''', Timeout_option ''-5'']
       = Inr \<lparr>url = '''', timeout = - 5\<rparr>
   \<and> filter is_get (emitted (mocked_world (Returns (Response 200)))
        (snd (check_service int_of_decimal [Positional '''', Timeout_option ''-5'']
           (mocked_world (Returns (Response 200))))))
       = [Http_get '''' (- 5)]
   \<and> int_of_decimal ''0'' = Some 0
   \<and> filter is_get (emitted (mocked_world (Returns (Response 200)))
        (snd (check_service int_of_decimal [Positional '''', Timeout_option ''0'']
           (mocked_world (Returns (Response 200))))))
       = [Http_get '''' 0]"
proof -
  have a: "int_of_decimal ''-5'' = Some (- 5)"
    by (simp add: digit_of_def)
  have b: "int_of_decimal ''0'' = Some 0"
    by (simp add: digit_of_def)
  show ?thesis
    using a b
      no_validation_of_url_or_timeout
        [where conv = int_of_decimal and s = "''-5''" and n = "- 5" and u = "''''"
           and w = "mocked_world (Returns (Response 200))", OF a]
      no_validation_of_url_or_timeout
        [where conv = int_of_decimal and s = "''0''" and n = 0 and u = "''''"
           and w = "mocked_world (Returns (Response 200))", OF b]
    by simp
qed

end
